theory Spec2Isabelle
  imports Main "HOL-Library.Finite_Map" "HOL-Library.Sublist"
begin

section \<open>Values shared with the collaborating libraries\<close>

text \<open>
  The module \<^verbatim>\<open>lingvo/tasks/car/input_extractor.py\<close> defines two classes,
  \<^verbatim>\<open>FieldsExtractor\<close> and \<^verbatim>\<open>LaserExtractor\<close>. Every \<^verbatim>\<open>raise\<close> and the
  failing \<^verbatim>\<open>assert\<close> of the module is a value of \<open>error\<close>; \<open>OtherError\<close> stands
  for whatever else an overriding method of a subclass may raise.
\<close>

datatype error = NotImplementedError | AssertionError string | OtherError string

text \<open>
  \<^verbatim>\<open>tf.TensorShape\<close> and \<^verbatim>\<open>tf.float32\<close> belong to TensorFlow. A shape is its list of
  dimensions, each one a size or unknown (\<^verbatim>\<open>None\<close>); it is fully specified when no
  dimension is unknown.
\<close>

datatype TensorShape = TensorShape (dims: "nat option list")

definition fully_specified :: "TensorShape \<Rightarrow> bool" where
  "fully_specified s = list_all (\<lambda>d. d \<noteq> None) (dims s)"

datatype dtype = float32 | float64 | int32 | int64 | tf_string | tf_bool

text \<open>
  \<^verbatim>\<open>py_utils.NestedMap\<close> is a dictionary from field names to values, where a value may
  again be a \<^verbatim>\<open>NestedMap\<close>. The constructor call \<^verbatim>\<open>NestedMap(k1=v1, k2=v2)\<close> takes
  keyword arguments, and \<^verbatim>\<open>ret.k = v\<close> stores one more entry (\<open>fmupd\<close>).
\<close>

datatype 'a item = Leaf 'a | Sub "(string, 'a item) fmap"

type_synonym 'a NestedMap = "(string, 'a item) fmap"

definition NestedMap :: "(string \<times> 'a) list \<Rightarrow> 'a NestedMap" where
  "NestedMap kwargs = fmap_of_list (map (\<lambda>(k, v). (k, Leaf v)) kwargs)"

definition keys :: "'a NestedMap \<Rightarrow> string fset" where
  "keys m = fmdom m"

primrec all_leaves :: "('a \<Rightarrow> bool) \<Rightarrow> 'a item \<Rightarrow> bool" where
  "all_leaves P (Leaf x) = P x"
| "all_leaves P (Sub m) = fmpred (\<lambda>_ b. b) (fmmap (all_leaves P) m)"

definition shapes_fully_specified :: "TensorShape NestedMap \<Rightarrow> bool" where
  "shapes_fully_specified m = all_leaves fully_specified (Sub m)"

text \<open>
  Modelled from the spec: the structure that the validation in \<^verbatim>\<open>Extract\<close> compares
  is computed inside \<^verbatim>\<open>lingvo/core/py_utils.py\<close>, which is not among the sources.
  The specification speaks of a map's "key set and nested structure" ("same keys, same
  nesting"): the key structure of a map is the map with every value erased.
\<close>

definition key_structure :: "'a NestedMap \<Rightarrow> unit NestedMap" where
  "key_structure m = fmmap (map_item (\<lambda>_. ())) m"

text \<open>
  Modelled from the spec: \<^verbatim>\<open>NestedMap.IsCompatible\<close> is defined in
  \<^verbatim>\<open>lingvo/core/py_utils.py\<close>, which is not among the sources. The specification
  requires that "the returned structured output's key set and nested structure must
  exactly match \<^verbatim>\<open>Shape()\<close>'s key set and nested structure": two maps are compatible
  when their key structures are equal.
\<close>

definition IsCompatible :: "'a NestedMap \<Rightarrow> 'b NestedMap \<Rightarrow> bool" where
  "IsCompatible a b = (key_structure a = key_structure b)"

section \<open>The extractor classes\<close>

text \<open>
  A method receives \<^verbatim>\<open>self\<close> and may change it, so a method is a function from the
  object to its outcome (an error or a value) and the object afterwards. A class is the
  table of its overridable methods; a subclass is an update of its parent's table.
  \<open>u_Extract\<close> is the method \<^verbatim>\<open>_Extract\<close>.
\<close>

type_synonym ('s, 'a) meth = "'s \<Rightarrow> (error + 'a) \<times> 's"

record ('s, 'f, 'fm, 'v) extractor =
  FeatureMap :: "('s, 'fm) meth"
  u_Extract :: "'f \<Rightarrow> ('s, 'v NestedMap) meth"
  Filter :: "'v NestedMap \<Rightarrow> ('s, int) meth"
  Shape :: "('s, TensorShape NestedMap) meth"
  DType :: "('s, dtype NestedMap) meth"

subsection \<open>FieldsExtractor\<close>

definition FieldsExtractor_FeatureMap :: "('s, 'fm) meth" where
  "FieldsExtractor_FeatureMap self = (Inl NotImplementedError, self)"

definition FieldsExtractor_Filter :: "'v NestedMap \<Rightarrow> ('s, int) meth" where
  "FieldsExtractor_Filter outputs self = (Inr 1, self)"

definition FieldsExtractor_Shape :: "('s, TensorShape NestedMap) meth" where
  "FieldsExtractor_Shape self = (Inl NotImplementedError, self)"

definition FieldsExtractor_DType :: "('s, dtype NestedMap) meth" where
  "FieldsExtractor_DType self = (Inl NotImplementedError, self)"

definition FieldsExtractor_u_Extract :: "'f \<Rightarrow> ('s, 'v NestedMap) meth" where
  "FieldsExtractor_u_Extract features self = (Inl NotImplementedError, self)"

definition FieldsExtractor :: "('s, 'f, 'fm, 'v) extractor" where
  "FieldsExtractor =
     \<lparr>FeatureMap = FieldsExtractor_FeatureMap,
      u_Extract = FieldsExtractor_u_Extract,
      Filter = FieldsExtractor_Filter,
      Shape = FieldsExtractor_Shape,
      DType = FieldsExtractor_DType\<rparr>"

text \<open>
  \<^verbatim>\<open>FieldsExtractor.Extract\<close>, called on an object of class \<open>cls\<close>. The calls
  \<^verbatim>\<open>self._Extract(features)\<close> and \<^verbatim>\<open>self.Shape()\<close> go through the table of the
  object's class; an error of either ends the call. \<^verbatim>\<open>NestedMap.DebugString\<close> is
  in \<^verbatim>\<open>py_utils\<close> as well; the rendering of the outputs and the rendering of the
  shapes are the parameters \<open>DebugString_o\<close> and \<open>DebugString_s\<close>, and the message
  of the assertion is \<^verbatim>\<open>'{} vs. {}'.format\<close> of the two.
\<close>

definition Extract ::
  "('v NestedMap \<Rightarrow> string) \<Rightarrow> (TensorShape NestedMap \<Rightarrow> string) \<Rightarrow>
   ('s, 'f, 'fm, 'v) extractor \<Rightarrow> 'f \<Rightarrow> ('s, 'v NestedMap) meth" where
  "Extract DebugString_o DebugString_s cls features self =
     (case u_Extract cls features self of
        (Inl e, self1) \<Rightarrow> (Inl e, self1)
      | (Inr outputs, self1) \<Rightarrow>
          (case Shape cls self1 of
             (Inl e, self2) \<Rightarrow> (Inl e, self2)
           | (Inr shapes, self2) \<Rightarrow>
               if IsCompatible outputs shapes then (Inr outputs, self2)
               else (Inl (AssertionError
                            (DebugString_o outputs @ '' vs. '' @ DebugString_s shapes)),
                     self2)))"

subsection \<open>LaserExtractor\<close>

text \<open>
  \<^verbatim>\<open>FieldsExtractor.Params\<close> sets \<^verbatim>\<open>p.name = cls.__name__\<close> on the parameters of
  \<^verbatim>\<open>BaseLayer\<close> (of \<^verbatim>\<open>lingvo.core\<close>, whose further options this module never
  reads); \<^verbatim>\<open>LaserExtractor.Params\<close> defines two more options with their defaults.
  Both options are counts, so they are natural numbers, \<^verbatim>\<open>None\<close> being the default
  of \<open>max_num_points\<close>. An object holds its parameters as \<^verbatim>\<open>self.params\<close>.
\<close>

record fields_params =
  name :: string

record laser_params = fields_params +
  max_num_points :: "nat option"
  num_features :: nat

record 'p layer =
  params :: 'p

definition FieldsExtractor_Params :: "string \<Rightarrow> fields_params" where
  "FieldsExtractor_Params cls_name = \<lparr>name = cls_name\<rparr>"

definition LaserExtractor_Params :: laser_params where
  "LaserExtractor_Params =
     (let p = FieldsExtractor_Params ''LaserExtractor''
      in \<lparr>name = name p, max_num_points = None, num_features = 1\<rparr>)"

definition LaserExtractor_Shape ::
  "((laser_params, 'z) layer_scheme, TensorShape NestedMap) meth" where
  "LaserExtractor_Shape self =
     (let p = params self;
          ret = NestedMap
                  [(''points_xyz'', TensorShape [max_num_points p, Some 3]),
                   (''points_feature'',
                    TensorShape [max_num_points p, Some (num_features p)])];
          ret = (if max_num_points p \<noteq> None
                 then fmupd ''points_padding'' (Leaf (TensorShape [max_num_points p])) ret
                 else ret)
      in (Inr ret, self))"

definition LaserExtractor_DType ::
  "((laser_params, 'z) layer_scheme, dtype NestedMap) meth" where
  "LaserExtractor_DType self =
     (let ret = NestedMap [(''points_xyz'', float32), (''points_feature'', float32)];
          ret = (if max_num_points (params self) \<noteq> None
                 then fmupd ''points_padding'' (Leaf float32) ret
                 else ret)
      in (Inr ret, self))"

definition LaserExtractor :: "((laser_params, 'z) layer_scheme, 'f, 'fm, 'v) extractor" where
  "LaserExtractor =
     FieldsExtractor\<lparr>Shape := LaserExtractor_Shape, DType := LaserExtractor_DType\<rparr>"

section \<open>Sequences of declaration calls\<close>

text \<open>
  Calling \<^verbatim>\<open>Shape()\<close>, \<^verbatim>\<open>DType()\<close> and \<^verbatim>\<open>FeatureMap()\<close> one after the other on
  one object: each call runs on the object as the calls before it left it.
\<close>

datatype call = Call_Shape | Call_DType | Call_FeatureMap

datatype 'fm returned =
  Shape_returned "TensorShape NestedMap"
| DType_returned "dtype NestedMap"
| FeatureMap_returned 'fm

fun invoke :: "('s, 'f, 'fm, 'v) extractor \<Rightarrow> call \<Rightarrow> ('s, 'fm returned) meth" where
  "invoke cls Call_Shape self =
     (case Shape cls self of (r, self1) \<Rightarrow> (map_sum id Shape_returned r, self1))"
| "invoke cls Call_DType self =
     (case DType cls self of (r, self1) \<Rightarrow> (map_sum id DType_returned r, self1))"
| "invoke cls Call_FeatureMap self =
     (case FeatureMap cls self of (r, self1) \<Rightarrow> (map_sum id FeatureMap_returned r, self1))"

fun run_calls ::
  "('s, 'f, 'fm, 'v) extractor \<Rightarrow> call list \<Rightarrow> 's \<Rightarrow> (error + 'fm returned) list \<times> 's" where
  "run_calls cls [] self = ([], self)"
| "run_calls cls (c # cs) self =
     (case invoke cls c self of
        (r, self1) \<Rightarrow> (case run_calls cls cs self1 of (rs, self2) \<Rightarrow> (r # rs, self2)))"

section \<open>Helper facts\<close>

lemma NestedMap_Nil: "NestedMap [] = fmempty"
  by (simp add: NestedMap_def)

lemma NestedMap_Cons: "NestedMap ((k, v) # kvs) = fmupd k (Leaf v) (NestedMap kvs)"
  by (simp add: NestedMap_def)

lemma key_structure_empty: "key_structure fmempty = fmempty"
  by (simp add: key_structure_def)

lemma key_structure_upd_Leaf:
  "key_structure (fmupd k (Leaf v) m) = fmupd k (Leaf ()) (key_structure m)"
  by (simp add: key_structure_def fmmap_fmupd)

lemma keys_key_structure: "keys (key_structure m) = keys m"
  by (simp add: keys_def key_structure_def)

lemma IsCompatible_keys: "IsCompatible a b \<Longrightarrow> keys a = keys b"
  unfolding IsCompatible_def using keys_key_structure by metis

lemma table_FieldsExtractor:
  "FeatureMap FieldsExtractor = FieldsExtractor_FeatureMap"
  "u_Extract FieldsExtractor = FieldsExtractor_u_Extract"
  "Filter FieldsExtractor = FieldsExtractor_Filter"
  "Shape FieldsExtractor = FieldsExtractor_Shape"
  "DType FieldsExtractor = FieldsExtractor_DType"
  by (simp_all add: FieldsExtractor_def)

lemma table_LaserExtractor:
  "FeatureMap LaserExtractor = FieldsExtractor_FeatureMap"
  "u_Extract LaserExtractor = FieldsExtractor_u_Extract"
  "Filter LaserExtractor = FieldsExtractor_Filter"
  "Shape LaserExtractor = LaserExtractor_Shape"
  "DType LaserExtractor = LaserExtractor_DType"
  by (simp_all add: LaserExtractor_def FieldsExtractor_def)

lemma Extract_u_Extract_raises:
  "u_Extract cls features self = (Inl e, self1) \<Longrightarrow>
   Extract dbo dbs cls features self = (Inl e, self1)"
  by (simp add: Extract_def)

lemma fmpred_upd_iff:
  "k |\<notin>| fmdom m \<Longrightarrow> fmpred P (fmupd k v m) = (P k v \<and> fmpred P m)"
  by (auto simp: fmpred_iff fmdom_notD split: if_splits)

lemma shapes_fully_specified_empty: "shapes_fully_specified fmempty"
  by (simp add: shapes_fully_specified_def)

lemma shapes_fully_specified_upd:
  "k |\<notin>| fmdom m \<Longrightarrow>
   shapes_fully_specified (fmupd k (Leaf s) m) = (fully_specified s \<and> shapes_fully_specified m)"
  by (simp add: shapes_fully_specified_def fmmap_fmupd fmpred_upd_iff)

text \<open>What the two declarations of the laser extractor return, by configuration.\<close>

lemma Laser_Shape_value:
  "LaserExtractor_Shape self =
     (Inr (case max_num_points (params self) of
             None \<Rightarrow> fmupd ''points_xyz'' (Leaf (TensorShape [None, Some 3]))
                      (fmupd ''points_feature''
                         (Leaf (TensorShape [None, Some (num_features (params self))])) fmempty)
           | Some n \<Rightarrow> fmupd ''points_padding'' (Leaf (TensorShape [Some n]))
                      (fmupd ''points_xyz'' (Leaf (TensorShape [Some n, Some 3]))
                      (fmupd ''points_feature''
                         (Leaf (TensorShape [Some n, Some (num_features (params self))]))
                         fmempty))),
      self)"
  by (simp add: LaserExtractor_Shape_def NestedMap_Cons NestedMap_Nil Let_def
        split: option.splits)

lemma Laser_DType_value:
  "LaserExtractor_DType self =
     (Inr (case max_num_points (params self) of
             None \<Rightarrow> fmupd ''points_xyz'' (Leaf float32)
                      (fmupd ''points_feature'' (Leaf float32) fmempty)
           | Some n \<Rightarrow> fmupd ''points_padding'' (Leaf float32)
                      (fmupd ''points_xyz'' (Leaf float32)
                      (fmupd ''points_feature'' (Leaf float32) fmempty))),
      self)"
  by (simp add: LaserExtractor_DType_def NestedMap_Cons NestedMap_Nil Let_def
        split: option.splits)

text \<open>The declarations leave the object as it was, and read nothing of it but its parameters.\<close>

lemma invoke_Fields:
  "invoke FieldsExtractor c self = (Inl NotImplementedError, self)"
  by (cases c)
     (simp_all add: table_FieldsExtractor FieldsExtractor_Shape_def FieldsExtractor_DType_def
        FieldsExtractor_FeatureMap_def)

lemma invoke_Laser_self: "snd (invoke LaserExtractor c self) = self"
  by (cases c)
     (simp_all add: table_LaserExtractor Laser_Shape_value Laser_DType_value
        FieldsExtractor_FeatureMap_def)

lemma invoke_Laser_params:
  "fst (invoke LaserExtractor c self) = fst (invoke LaserExtractor c \<lparr>params = params self\<rparr>)"
  by (cases c)
     (simp_all add: table_LaserExtractor Laser_Shape_value Laser_DType_value
        FieldsExtractor_FeatureMap_def split: option.splits)

lemma run_calls_pure:
  assumes "\<And>c s. snd (invoke cls c s) = s"
  shows "run_calls cls cs self = (map (\<lambda>c. fst (invoke cls c self)) cs, self)"
proof (induction cs)
  case Nil
  show ?case by simp
next
  case (Cons c cs)
  obtain r where r: "invoke cls c self = (r, self)"
    using assms [of c self] by (cases "invoke cls c self") simp
  show ?case by (simp add: r Cons.IH)
qed

section \<open>The default filter\<close>

text \<open>
  C4. The base implementation of \<^verbatim>\<open>Filter\<close> returns exactly 1 for every structured
  output and leaves the object alone; so does every extractor that inherits it,
  whatever it overrides among the other four methods.
\<close>

theorem Filter_default_returns_1:
  "FieldsExtractor_Filter outputs self = (Inr 1, self) \<and>
   Filter (FieldsExtractor\<lparr>FeatureMap := fm, u_Extract := ex, Shape := sh, DType := dt\<rparr>)
     outputs self = (Inr 1, self)"
  by (simp add: FieldsExtractor_def FieldsExtractor_Filter_def)

section \<open>The validation in Extract\<close>

text \<open>
  C1. For every extractor and every raw field dictionary: when \<^verbatim>\<open>_Extract\<close> has returned
  a structured output and \<^verbatim>\<open>Shape()\<close> a shape declaration, \<^verbatim>\<open>Extract\<close> returns that
  output if its key structure (key set and nesting) equals that of the declaration;
  otherwise it fails with an assertion error whose message is the rendering of the
  output, \<^verbatim>\<open>' vs. '\<close>, and the rendering of the declaration, so it contains both.
\<close>

theorem Extract_validates_shape:
  assumes "u_Extract cls features self = (Inr outputs, self1)"
    and "Shape cls self1 = (Inr shapes, self2)"
  shows "(key_structure outputs = key_structure shapes \<longrightarrow>
            Extract dbo dbs cls features self = (Inr outputs, self2)) \<and>
         (key_structure outputs \<noteq> key_structure shapes \<longrightarrow>
            (\<exists>msg. Extract dbo dbs cls features self = (Inl (AssertionError msg), self2) \<and>
                   msg = dbo outputs @ '' vs. '' @ dbs shapes \<and>
                   sublist (dbo outputs) msg \<and> sublist (dbs shapes) msg))"
proof (intro conjI impI)
  assume "key_structure outputs = key_structure shapes"
  then show "Extract dbo dbs cls features self = (Inr outputs, self2)"
    using assms by (simp add: Extract_def IsCompatible_def)
next
  assume ne: "key_structure outputs \<noteq> key_structure shapes"
  let ?msg = "dbo outputs @ '' vs. '' @ dbs shapes"
  have "Extract dbo dbs cls features self = (Inl (AssertionError ?msg), self2)"
    using assms ne by (simp add: Extract_def IsCompatible_def)
  moreover have "sublist (dbo outputs) ?msg"
    using sublist_appendI [of "dbo outputs" "[]" "'' vs. '' @ dbs shapes"] by simp
  moreover have "sublist (dbs shapes) ?msg"
    using sublist_appendI [of "dbs shapes" "dbo outputs @ '' vs. ''" "[]"] by simp
  ultimately show "\<exists>msg. Extract dbo dbs cls features self = (Inl (AssertionError msg), self2) \<and>
                   msg = dbo outputs @ '' vs. '' @ dbs shapes \<and>
                   sublist (dbo outputs) msg \<and> sublist (dbs shapes) msg"
    by blast
qed

text \<open>A matching output is returned; an output that lacks a declared field is refused.\<close>

theorem Extract_validates_shape_witness:
  "Extract (\<lambda>_. ''outputs'') (\<lambda>_. ''shapes'')
     (LaserExtractor\<lparr>u_Extract := \<lambda>features self. (Inr features, self)\<rparr>
        :: (laser_params layer, nat NestedMap, unit, nat) extractor)
     (NestedMap [(''points_xyz'', 0::nat), (''points_feature'', 0)])
     \<lparr>params = LaserExtractor_Params\<rparr>
   = (Inr (NestedMap [(''points_xyz'', 0::nat), (''points_feature'', 0)]),
      \<lparr>params = LaserExtractor_Params\<rparr>) \<and>
   (\<exists>msg. Extract (\<lambda>_. ''outputs'') (\<lambda>_. ''shapes'')
     (LaserExtractor\<lparr>u_Extract := \<lambda>features self. (Inr features, self)\<rparr>
        :: (laser_params layer, nat NestedMap, unit, nat) extractor)
     (NestedMap [(''points_xyz'', 0::nat)])
     \<lparr>params = LaserExtractor_Params\<rparr>
   = (Inl (AssertionError msg), \<lparr>params = LaserExtractor_Params\<rparr>) \<and>
     msg = ''outputs vs. shapes'' \<and> sublist ''outputs'' msg \<and> sublist ''shapes'' msg)"
proof -
  let ?cls = "LaserExtractor\<lparr>u_Extract := \<lambda>features self. (Inr features, self)\<rparr>
                :: (laser_params layer, nat NestedMap, unit, nat) extractor"
  let ?self = "\<lparr>params = LaserExtractor_Params\<rparr>"
  let ?good = "NestedMap [(''points_xyz'', 0::nat), (''points_feature'', 0)]"
  let ?bad = "NestedMap [(''points_xyz'', 0::nat)]"
  let ?shapes = "NestedMap [(''points_xyz'', TensorShape [None, Some 3]),
                            (''points_feature'', TensorShape [None, Some 1])]"
  have sh: "Shape ?cls ?self = (Inr ?shapes, ?self)"
    by (simp add: LaserExtractor_def table_FieldsExtractor Laser_Shape_value LaserExtractor_Params_def
          FieldsExtractor_Params_def NestedMap_Cons NestedMap_Nil)
  have g: "u_Extract ?cls ?good ?self = (Inr ?good, ?self)" by simp
  have b: "u_Extract ?cls ?bad ?self = (Inr ?bad, ?self)" by simp
  have eq: "key_structure ?good = key_structure ?shapes"
    by (simp add: NestedMap_Cons NestedMap_Nil key_structure_upd_Leaf key_structure_empty)
  have "keys ?bad \<noteq> keys ?shapes"
    by (simp add: NestedMap_Cons NestedMap_Nil keys_def)
  then have ne: "key_structure ?bad \<noteq> key_structure ?shapes"
    using keys_key_structure by metis
  show ?thesis
    using Extract_validates_shape [OF g sh, of "\<lambda>_. ''outputs''" "\<lambda>_. ''shapes''"]
          Extract_validates_shape [OF b sh, of "\<lambda>_. ''outputs''" "\<lambda>_. ''shapes''"] eq ne
    by simp
qed

section \<open>Returned outputs are untouched\<close>

text \<open>
  C9. When \<^verbatim>\<open>_Extract\<close> returns an output that passes the validation against
  \<^verbatim>\<open>Shape()\<close>, \<^verbatim>\<open>Extract\<close> returns exactly that output; and whatever \<^verbatim>\<open>Extract\<close>
  returns is the very value \<^verbatim>\<open>_Extract\<close> returned: nothing is reshaped, padded,
  coerced, added or removed in between.
\<close>

theorem Extract_returns_outputs_unchanged:
  "(u_Extract cls features self = (Inr outputs, self1) \<longrightarrow>
    Shape cls self1 = (Inr shapes, self2) \<longrightarrow> IsCompatible outputs shapes \<longrightarrow>
      Extract dbo dbs cls features self = (Inr outputs, self2)) \<and>
   (Extract dbo dbs cls features self = (Inr r, self') \<longrightarrow>
      (\<exists>self1. u_Extract cls features self = (Inr r, self1)))"
  by (auto simp: Extract_def split: prod.splits sum.splits if_splits)

text \<open>An output with values 7 and 9 comes back with values 7 and 9.\<close>

theorem Extract_returns_outputs_unchanged_witness:
  "Extract (\<lambda>_. ''outputs'') (\<lambda>_. ''shapes'')
     (LaserExtractor\<lparr>u_Extract := \<lambda>features self. (Inr features, self)\<rparr>
        :: (laser_params layer, nat NestedMap, unit, nat) extractor)
     (NestedMap [(''points_xyz'', 7::nat), (''points_feature'', 9)])
     \<lparr>params = LaserExtractor_Params\<rparr>
   = (Inr (NestedMap [(''points_xyz'', 7::nat), (''points_feature'', 9)]),
      \<lparr>params = LaserExtractor_Params\<rparr>) \<and>
   (\<exists>self1. u_Extract (LaserExtractor\<lparr>u_Extract := \<lambda>features self. (Inr features, self)\<rparr>
                :: (laser_params layer, nat NestedMap, unit, nat) extractor)
     (NestedMap [(''points_xyz'', 7::nat), (''points_feature'', 9)])
     \<lparr>params = LaserExtractor_Params\<rparr>
   = (Inr (NestedMap [(''points_xyz'', 7::nat), (''points_feature'', 9)]), self1))"
proof -
  let ?cls = "LaserExtractor\<lparr>u_Extract := \<lambda>features self. (Inr features, self)\<rparr>
                :: (laser_params layer, nat NestedMap, unit, nat) extractor"
  let ?self = "\<lparr>params = LaserExtractor_Params\<rparr>"
  let ?good = "NestedMap [(''points_xyz'', 7::nat), (''points_feature'', 9)]"
  let ?shapes = "NestedMap [(''points_xyz'', TensorShape [None, Some 3]),
                            (''points_feature'', TensorShape [None, Some 1])]"
  have sh: "Shape ?cls ?self = (Inr ?shapes, ?self)"
    by (simp add: LaserExtractor_def table_FieldsExtractor Laser_Shape_value LaserExtractor_Params_def
          FieldsExtractor_Params_def NestedMap_Cons NestedMap_Nil)
  have g: "u_Extract ?cls ?good ?self = (Inr ?good, ?self)" by simp
  have eq: "IsCompatible ?good ?shapes"
    by (simp add: IsCompatible_def NestedMap_Cons NestedMap_Nil key_structure_upd_Leaf
          key_structure_empty)
  have first: "Extract (\<lambda>_. ''outputs'') (\<lambda>_. ''shapes'') ?cls ?good ?self = (Inr ?good, ?self)"
    using Extract_returns_outputs_unchanged [of ?cls ?good ?self ?good ?self ?shapes ?self "\<lambda>_. ''outputs''" "\<lambda>_. ''shapes''"]
          g sh eq by blast
  have "\<exists>self1. u_Extract ?cls ?good ?self = (Inr ?good, self1)"
    using Extract_returns_outputs_unchanged [of ?cls ?good ?self ?good ?self ?shapes ?self "\<lambda>_. ''outputs''" "\<lambda>_. ''shapes''"
                 ?good ?self] first by blast
  with first show ?thesis by blast
qed

section \<open>The base class is abstract\<close>

text \<open>
  C5. On an object of the base class, \<^verbatim>\<open>Extract\<close> fails with the not-implemented error
  of \<^verbatim>\<open>_Extract\<close>. The failure comes before the validation: it is the same whatever
  \<^verbatim>\<open>Shape\<close> (and every other method but \<^verbatim>\<open>_Extract\<close>) is overridden with, and the
  object is as it was, so \<^verbatim>\<open>Shape\<close> has not run. \<^verbatim>\<open>Shape()\<close>, \<^verbatim>\<open>DType()\<close> and
  \<^verbatim>\<open>FeatureMap()\<close> of the base class fail with not-implemented as well.
\<close>

theorem FieldsExtractor_not_implemented:
  "Extract dbo dbs (FieldsExtractor\<lparr>FeatureMap := fm, Filter := fl, Shape := sh, DType := dt\<rparr>)
     features self = (Inl NotImplementedError, self) \<and>
   Extract dbo dbs FieldsExtractor features self = (Inl NotImplementedError, self) \<and>
   Shape FieldsExtractor self = (Inl NotImplementedError, self) \<and>
   DType FieldsExtractor self = (Inl NotImplementedError, self) \<and>
   FeatureMap FieldsExtractor self = (Inl NotImplementedError, self)"
  by (simp add: Extract_def FieldsExtractor_def FieldsExtractor_u_Extract_def
        FieldsExtractor_Shape_def FieldsExtractor_DType_def FieldsExtractor_FeatureMap_def)

section \<open>What LaserExtractor inherits\<close>

text \<open>
  C10. \<^verbatim>\<open>LaserExtractor\<close> takes \<^verbatim>\<open>_Extract\<close>, \<^verbatim>\<open>FeatureMap\<close> and \<^verbatim>\<open>Filter\<close> from
  the base class. So for every configuration \<^verbatim>\<open>Extract\<close> on any raw field dictionary
  and \<^verbatim>\<open>FeatureMap()\<close> raise the not-implemented error, and \<^verbatim>\<open>Filter\<close> returns 1 for
  every output.
\<close>

theorem LaserExtractor_inherits_not_implemented:
  "u_Extract LaserExtractor = FieldsExtractor_u_Extract \<and>
   FeatureMap LaserExtractor = FieldsExtractor_FeatureMap \<and>
   Filter LaserExtractor = FieldsExtractor_Filter \<and>
   Extract dbo dbs LaserExtractor features self = (Inl NotImplementedError, self) \<and>
   FeatureMap LaserExtractor self = (Inl NotImplementedError, self) \<and>
   Filter LaserExtractor outputs self = (Inr 1, self)"
  by (simp add: table_LaserExtractor Extract_u_Extract_raises FieldsExtractor_u_Extract_def
        FieldsExtractor_FeatureMap_def FieldsExtractor_Filter_def)

section \<open>The declarations of the laser extractor\<close>

text \<open>
  C2. For the laser extractor under every configuration, \<open>points_padding\<close> is a key of
  \<^verbatim>\<open>Shape()\<close> exactly when \<open>max_num_points\<close> is not \<^verbatim>\<open>None\<close>, and a key of
  \<^verbatim>\<open>DType()\<close> exactly when \<open>max_num_points\<close> is not \<^verbatim>\<open>None\<close>.
\<close>

theorem Laser_points_padding_iff:
  "\<exists>s d. Shape LaserExtractor self = (Inr s, self) \<and> DType LaserExtractor self = (Inr d, self) \<and>
     (''points_padding'' |\<in>| keys s) = (max_num_points (params self) \<noteq> None) \<and>
     (''points_padding'' |\<in>| keys d) = (max_num_points (params self) \<noteq> None)"
  by (cases "max_num_points (params self)")
     (simp_all add: table_LaserExtractor Laser_Shape_value Laser_DType_value keys_def)

section \<open>Shape and DType declare the same fields\<close>

text \<open>
  C3, as it is claimed: for every concrete extractor the key set of \<^verbatim>\<open>Shape()\<close> equals
  the key set of \<^verbatim>\<open>DType()\<close>. Nothing in the module compares the two declarations,
  so a subclass is free to break it: the extractor that overrides \<^verbatim>\<open>Shape\<close> to declare
  the field \<open>a\<close> and \<^verbatim>\<open>DType\<close> to declare the field \<open>b\<close> has two different key sets.
\<close>

theorem Shape_DType_keys_may_differ:
  "Shape ((FieldsExtractor :: (unit, unit, unit, unit) extractor)
            \<lparr>Shape := Pair (Inr (NestedMap [(''a'', TensorShape [Some 1])])),
             DType := Pair (Inr (NestedMap [(''b'', float32)]))\<rparr>) ()
     = (Inr (NestedMap [(''a'', TensorShape [Some 1])]), ()) \<and>
   DType ((FieldsExtractor :: (unit, unit, unit, unit) extractor)
            \<lparr>Shape := Pair (Inr (NestedMap [(''a'', TensorShape [Some 1])])),
             DType := Pair (Inr (NestedMap [(''b'', float32)]))\<rparr>) ()
     = (Inr (NestedMap [(''b'', float32)]), ()) \<and>
   keys (NestedMap [(''a'', TensorShape [Some 1])]) \<noteq> keys (NestedMap [(''b'', float32)])"
  by (simp add: keys_def NestedMap_Cons NestedMap_Nil)

text \<open>
  C3, amended. For the laser extractor, the one concrete extractor that the module
  defines, under every configuration the key set of \<^verbatim>\<open>Shape()\<close> equals the key set of
  \<^verbatim>\<open>DType()\<close>.
\<close>

theorem Laser_Shape_DType_same_keys:
  "\<exists>s d. Shape LaserExtractor self = (Inr s, self) \<and> DType LaserExtractor self = (Inr d, self) \<and>
     keys s = keys d"
  by (cases "max_num_points (params self)")
     (simp_all add: table_LaserExtractor Laser_Shape_value Laser_DType_value keys_def)

section \<open>Scenario: 1024 points with 4 features\<close>

text \<open>
  C7. A laser extractor with \<open>max_num_points = 1024\<close> and \<open>num_features = 4\<close> declares
  the shapes \<open>points_xyz: [1024, 3]\<close>, \<open>points_feature: [1024, 4]\<close> and
  \<open>points_padding: [1024]\<close>, and declares all three fields as float.
\<close>

theorem Laser_scenario_1024_4:
  "Shape LaserExtractor \<lparr>params = LaserExtractor_Params\<lparr>max_num_points := Some 1024, num_features := 4\<rparr>\<rparr>
   = (Inr (NestedMap [(''points_xyz'', TensorShape [Some 1024, Some 3]),
                      (''points_feature'', TensorShape [Some 1024, Some 4]),
                      (''points_padding'', TensorShape [Some 1024])]),
      \<lparr>params = LaserExtractor_Params\<lparr>max_num_points := Some 1024, num_features := 4\<rparr>\<rparr>) \<and>
   DType LaserExtractor \<lparr>params = LaserExtractor_Params\<lparr>max_num_points := Some 1024, num_features := 4\<rparr>\<rparr>
   = (Inr (NestedMap [(''points_xyz'', float32),
                      (''points_feature'', float32),
                      (''points_padding'', float32)]),
      \<lparr>params = LaserExtractor_Params\<lparr>max_num_points := Some 1024, num_features := 4\<rparr>\<rparr>)"
  by (simp add: table_LaserExtractor Laser_Shape_value Laser_DType_value NestedMap_Cons NestedMap_Nil
        fmupd_reorder_neq)

section \<open>Fully specified shapes\<close>

text \<open>
  C6. The claim, like the docstring of \<^verbatim>\<open>FieldsExtractor.Shape\<close> ("un-batched
  fully-specified tf.TensorShapes"), says that every shape of \<^verbatim>\<open>Shape()\<close> is fully
  specified under every configuration. The code does otherwise: with the default
  parameters (\<open>max_num_points\<close> is \<^verbatim>\<open>None\<close>) \<^verbatim>\<open>LaserExtractor.Shape\<close> returns
  \<open>points_xyz: [None, 3]\<close> and \<open>points_feature: [None, 1]\<close>, whose first dimension is
  unknown.
\<close>

theorem Laser_Shape_default_not_fully_specified:
  "Shape LaserExtractor \<lparr>params = LaserExtractor_Params\<rparr> =
     (Inr (NestedMap [(''points_xyz'', TensorShape [None, Some 3]),
                      (''points_feature'', TensorShape [None, Some 1])]),
      \<lparr>params = LaserExtractor_Params\<rparr>) \<and>
   \<not> shapes_fully_specified
        (NestedMap [(''points_xyz'', TensorShape [None, Some 3]),
                    (''points_feature'', TensorShape [None, Some 1])])"
  by (simp add: table_LaserExtractor Laser_Shape_value LaserExtractor_Params_def
        FieldsExtractor_Params_def NestedMap_Cons NestedMap_Nil shapes_fully_specified_upd
        shapes_fully_specified_empty fully_specified_def)

section \<open>Repeated declaration calls\<close>

text \<open>
  C8. Any sequence of calls of \<^verbatim>\<open>Shape()\<close>, \<^verbatim>\<open>DType()\<close> and \<^verbatim>\<open>FeatureMap()\<close> on one
  laser extractor leaves the object as it was, and each call has the outcome the same
  call has on a fresh object with the same parameters: the outcome is a function of the
  configuration alone, the same every time. (None of the three methods takes a record.)
  On an object of the base class every such call raises not-implemented, every time.
\<close>

theorem declarations_idempotent:
  "run_calls LaserExtractor cs self =
     (map (\<lambda>c. fst (invoke LaserExtractor c \<lparr>params = params self\<rparr>)) cs, self) \<and>
   run_calls FieldsExtractor cs self' = (map (\<lambda>c. Inl NotImplementedError) cs, self')"
proof
  show "run_calls LaserExtractor cs self =
     (map (\<lambda>c. fst (invoke LaserExtractor c \<lparr>params = params self\<rparr>)) cs, self)"
    by (simp add: run_calls_pure [OF invoke_Laser_self] invoke_Laser_params [of _ self])
next
  show "run_calls FieldsExtractor cs self' = (map (\<lambda>c. Inl NotImplementedError) cs, self')"
    using run_calls_pure [of FieldsExtractor cs self'] by (simp add: invoke_Fields)
qed

end
